theory Spec2Isabelle
  imports Main "HOL-Library.AList"
begin

section \<open>The instruction catalog of \<^verbatim>\<open>assembler.py\<close>\<close>

text \<open>
  The two dataclasses of the source. \<^verbatim>\<open>Opcode\<close> holds the opcode byte as a Python
  integer and a free-text description of the operands; \<^verbatim>\<open>OpcodeGroup\<close> holds one
  optional \<^verbatim>\<open>Opcode\<close> per addressing mode.
\<close>

record Opcode =
  instr :: int
  params :: string

record OpcodeGroup =
  literal :: "Opcode option"
  direct :: "Opcode option"
  indirect :: "Opcode option"
  pc_direct :: "Opcode option"
  pc_indirect :: "Opcode option"
  register :: "Opcode option"

text \<open>
  The values of the dictionary \<^verbatim>\<open>MNEMONICS\<close> are of either class; the source tells
  them apart with \<^verbatim>\<open>isinstance(mnemonic, OpcodeGroup)\<close>.
\<close>

datatype mnemonic = Op Opcode | Group OpcodeGroup

fun isinstance_OpcodeGroup :: "mnemonic \<Rightarrow> bool" where
  "isinstance_OpcodeGroup (Group g) = True"
| "isinstance_OpcodeGroup (Op opc) = False"

text \<open>
  The key/value pairs of the dictionary display, in the order in which they are written
  in the source (lines 25 to 321), repeated keys included.
\<close>

definition MNEMONICS_display :: "(string \<times> mnemonic) list" where
  "MNEMONICS_display =
    [(''HLT'', Op \<lparr>instr = 0x00, params = ''''\<rparr>),
     (''NOP'', Op \<lparr>instr = 0x01, params = ''''\<rparr>),
     (''SF'', Op \<lparr>instr = 0x02, params = ''''\<rparr>),
     (''RF'', Op \<lparr>instr = 0x03, params = ''''\<rparr>),
     (''EI'', Op \<lparr>instr = 0x04, params = ''''\<rparr>),
     (''DI'', Op \<lparr>instr = 0x05, params = ''''\<rparr>),
     (''SL'', Op \<lparr>instr = 0x06, params = ''''\<rparr>),
     (''RL'', Op \<lparr>instr = 0x07, params = ''''\<rparr>),
     (''CL'', Op \<lparr>instr = 0x08, params = ''''\<rparr>),
     (''RSR'', Op \<lparr>instr = 0x09, params = ''''\<rparr>),
     (''RI'', Op \<lparr>instr = 0x0A, params = ''''\<rparr>),
     (''RIM'', Op \<lparr>instr = 0x0B, params = ''''\<rparr>),
     (''ELO'', Op \<lparr>instr = 0x0C, params = ''''\<rparr>),
     (''PCX'', Op \<lparr>instr = 0x0D, params = ''''\<rparr>),
     (''DLY'', Op \<lparr>instr = 0x0E, params = ''''\<rparr>),
     (''SYSRET'', Op \<lparr>instr = 0x0F, params = ''''\<rparr>),
     (''BL'', Op \<lparr>instr = 0x10, params = ''PC+N''\<rparr>),
     (''BNL'', Op \<lparr>instr = 0x11, params = ''PC+N''\<rparr>),
     (''BF'', Op \<lparr>instr = 0x12, params = ''PC+N''\<rparr>),
     (''BNF'', Op \<lparr>instr = 0x13, params = ''PC+N''\<rparr>),
     (''BZ'', Op \<lparr>instr = 0x14, params = ''PC+N''\<rparr>),
     (''BNZ'', Op \<lparr>instr = 0x15, params = ''PC+N''\<rparr>),
     (''BM'', Op \<lparr>instr = 0x16, params = ''PC+N''\<rparr>),
     (''BP'', Op \<lparr>instr = 0x17, params = ''PC+N''\<rparr>),
     (''BGZ'', Op \<lparr>instr = 0x18, params = ''PC+N''\<rparr>),
     (''BLE'', Op \<lparr>instr = 0x19, params = ''PC+N''\<rparr>),
     (''BS1'', Op \<lparr>instr = 0x1A, params = ''PC+N''\<rparr>),
     (''BS2'', Op \<lparr>instr = 0x1B, params = ''PC+N''\<rparr>),
     (''BS3'', Op \<lparr>instr = 0x1C, params = ''PC+N''\<rparr>),
     (''BS4'', Op \<lparr>instr = 0x1D, params = ''PC+N''\<rparr>),
     (''INR'', Op \<lparr>instr = 0x20, params = ''Byte Register in high nibble, unsigned constant in low nibble''\<rparr>),
     (''DCR'', Op \<lparr>instr = 0x21, params = ''Byte Register in high nibble, unsigned constant in low nibble''\<rparr>),
     (''CLR'', Op \<lparr>instr = 0x22, params = ''Byte Register in high nibble, unsigned constant in low nibble''\<rparr>),
     (''IVR'', Op \<lparr>instr = 0x23, params = ''Byte Register in high nibble, unsigned constant in low nibble''\<rparr>),
     (''SRR'', Op \<lparr>instr = 0x24, params = ''Byte Register in high nibble, unsigned constant in low nibble''\<rparr>),
     (''SLR'', Op \<lparr>instr = 0x25, params = ''Byte Register in high nibble, unsigned constant in low nibble''\<rparr>),
     (''RRR'', Op \<lparr>instr = 0x26, params = ''Byte Register in high nibble, unsigned constant in low nibble''\<rparr>),
     (''RLR'', Op \<lparr>instr = 0x27, params = ''Byte Register in high nibble, unsigned constant in low nibble''\<rparr>),
     (''INAL'', Op \<lparr>instr = 0x28, params = ''''\<rparr>),
     (''DCAL'', Op \<lparr>instr = 0x29, params = ''''\<rparr>),
     (''CLAL'', Op \<lparr>instr = 0x2A, params = ''''\<rparr>),
     (''IVAL'', Op \<lparr>instr = 0x2B, params = ''''\<rparr>),
     (''SRAL'', Op \<lparr>instr = 0x2C, params = ''''\<rparr>),
     (''SLAL'', Op \<lparr>instr = 0x2D, params = ''''\<rparr>),
     (''INR'', Op \<lparr>instr = 0x30, params = ''Word Register in high nibble, unsigned constant in low nibble''\<rparr>),
     (''DCR'', Op \<lparr>instr = 0x31, params = ''Word Register in high nibble, unsigned constant in low nibble''\<rparr>),
     (''CLR'', Op \<lparr>instr = 0x32, params = ''Word Register in high nibble, unsigned constant in low nibble''\<rparr>),
     (''IVR'', Op \<lparr>instr = 0x33, params = ''Word Register in high nibble, unsigned constant in low nibble''\<rparr>),
     (''SRR'', Op \<lparr>instr = 0x34, params = ''Word Register in high nibble, unsigned constant in low nibble''\<rparr>),
     (''SLR'', Op \<lparr>instr = 0x35, params = ''Word Register in high nibble, unsigned constant in low nibble''\<rparr>),
     (''RRR'', Op \<lparr>instr = 0x36, params = ''Word Register in high nibble, unsigned constant in low nibble''\<rparr>),
     (''RLR'', Op \<lparr>instr = 0x37, params = ''Word Register in high nibble, unsigned constant in low nibble''\<rparr>),
     (''INAW'', Op \<lparr>instr = 0x38, params = ''''\<rparr>),
     (''DCAW'', Op \<lparr>instr = 0x39, params = ''''\<rparr>),
     (''CLAW'', Op \<lparr>instr = 0x3A, params = ''''\<rparr>),
     (''IVAW'', Op \<lparr>instr = 0x3B, params = ''''\<rparr>),
     (''SRAW'', Op \<lparr>instr = 0x3C, params = ''''\<rparr>),
     (''SLAW'', Op \<lparr>instr = 0x3D, params = ''''\<rparr>),
     (''INX'', Op \<lparr>instr = 0x3E, params = ''''\<rparr>),
     (''DCX'', Op \<lparr>instr = 0x3F, params = ''''\<rparr>),
     (''ADD'', Op \<lparr>instr = 0x40, params = ''Byte register, Byte register''\<rparr>),
     (''SUB'', Op \<lparr>instr = 0x41, params = ''Byte register, Byte register''\<rparr>),
     (''AND'', Op \<lparr>instr = 0x42, params = ''Byte register, Byte register''\<rparr>),
     (''ORI'', Op \<lparr>instr = 0x43, params = ''Byte register, Byte register''\<rparr>),
     (''ORE'', Op \<lparr>instr = 0x44, params = ''Byte register, Byte register''\<rparr>),
     (''XFR'', Op \<lparr>instr = 0x45, params = ''Byte register, Byte register''\<rparr>),
     (''AABL'', Op \<lparr>instr = 0x48, params = ''''\<rparr>),
     (''SABL'', Op \<lparr>instr = 0x49, params = ''''\<rparr>),
     (''NABL'', Op \<lparr>instr = 0x4A, params = ''''\<rparr>),
     (''XAXL'', Op \<lparr>instr = 0x4B, params = ''''\<rparr>),
     (''XAYL'', Op \<lparr>instr = 0x4C, params = ''''\<rparr>),
     (''XABL'', Op \<lparr>instr = 0x4D, params = ''''\<rparr>),
     (''XAZL'', Op \<lparr>instr = 0x4E, params = ''''\<rparr>),
     (''XASL'', Op \<lparr>instr = 0x4F, params = ''''\<rparr>),
     (''ADD'', Op \<lparr>instr = 0x50, params = ''Word Register, Word Register''\<rparr>),
     (''SUB'', Op \<lparr>instr = 0x51, params = ''Word Register, Word Register''\<rparr>),
     (''AND'', Op \<lparr>instr = 0x52, params = ''Word Register, Word Register''\<rparr>),
     (''ORI'', Op \<lparr>instr = 0x53, params = ''Word Register, Word Register''\<rparr>),
     (''ORE'', Op \<lparr>instr = 0x54, params = ''Word Register, Word Register''\<rparr>),
     (''XFR'', Op \<lparr>instr = 0x55, params = ''Word Register, Word Register''\<rparr>),
     (''AABW'', Op \<lparr>instr = 0x58, params = ''''\<rparr>),
     (''SABW'', Op \<lparr>instr = 0x59, params = ''''\<rparr>),
     (''NABW'', Op \<lparr>instr = 0x5A, params = ''''\<rparr>),
     (''XAXW'', Op \<lparr>instr = 0x5B, params = ''''\<rparr>),
     (''XAYW'', Op \<lparr>instr = 0x5C, params = ''''\<rparr>),
     (''XABW'', Op \<lparr>instr = 0x5D, params = ''''\<rparr>),
     (''XAZW'', Op \<lparr>instr = 0x5E, params = ''''\<rparr>),
     (''XASW'', Op \<lparr>instr = 0x5F, params = ''''\<rparr>),
     (''LDXW'', Group \<lparr>literal = Some \<lparr>instr = 0x60, params = ''#Literal''\<rparr>,
        direct = Some \<lparr>instr = 0x61, params = ''Direct''\<rparr>,
        indirect = Some \<lparr>instr = 0x62, params = ''[Indirect]''\<rparr>,
        pc_direct = Some \<lparr>instr = 0x63, params = ''PC+N''\<rparr>,
        pc_indirect = Some \<lparr>instr = 0x64, params = ''[PC+N]''\<rparr>,
        register = Some \<lparr>instr = 0x65, params = ''Word Register, Mod.''\<rparr>\<rparr>),
     (''STXW'', Group \<lparr>literal = Some \<lparr>instr = 0x68, params = ''Store Location''\<rparr>,
        direct = Some \<lparr>instr = 0x69, params = ''Direct''\<rparr>,
        indirect = Some \<lparr>instr = 0x6A, params = ''[Indirect]''\<rparr>,
        pc_direct = Some \<lparr>instr = 0x6B, params = ''PC+N''\<rparr>,
        pc_indirect = Some \<lparr>instr = 0x6C, params = ''[PC+N]''\<rparr>,
        register = Some \<lparr>instr = 0x6D, params = ''Word Register, Mod.''\<rparr>\<rparr>),
     (''JMP'', Group \<lparr>literal = Some \<lparr>instr = 0x70, params = ''#Literal''\<rparr>,
        direct = Some \<lparr>instr = 0x71, params = ''Direct''\<rparr>,
        indirect = Some \<lparr>instr = 0x72, params = ''[Indirect]''\<rparr>,
        pc_direct = Some \<lparr>instr = 0x73, params = ''PC+N''\<rparr>,
        pc_indirect = Some \<lparr>instr = 0x74, params = ''[PC+N]''\<rparr>,
        register = Some \<lparr>instr = 0x75, params = ''Word Register, Mod.''\<rparr>\<rparr>),
     (''SYSCALL'', Op \<lparr>instr = 0x76, params = ''''\<rparr>),
     (''JSR'', Group \<lparr>literal = Some \<lparr>instr = 0x78, params = ''#Literal''\<rparr>,
        direct = Some \<lparr>instr = 0x79, params = ''Direct''\<rparr>,
        indirect = Some \<lparr>instr = 0x7A, params = ''[Indirect]''\<rparr>,
        pc_direct = Some \<lparr>instr = 0x7B, params = ''PC+N''\<rparr>,
        pc_indirect = Some \<lparr>instr = 0x7C, params = ''[PC+N]''\<rparr>,
        register = Some \<lparr>instr = 0x7D, params = ''Word Register, Mod.''\<rparr>\<rparr>),
     (''LDAL'', Group \<lparr>literal = Some \<lparr>instr = 0x80, params = ''#Literal''\<rparr>,
        direct = Some \<lparr>instr = 0x81, params = ''Direct''\<rparr>,
        indirect = Some \<lparr>instr = 0x82, params = ''[Indirect]''\<rparr>,
        pc_direct = Some \<lparr>instr = 0x83, params = ''PC+N''\<rparr>,
        pc_indirect = Some \<lparr>instr = 0x84, params = ''[PC+N]''\<rparr>,
        register = Some \<lparr>instr = 0x85, params = ''Word Register, Mod.''\<rparr>\<rparr>),
     (''LALA'', Op \<lparr>instr = 0x88, params = ''''\<rparr>),
     (''LALB'', Op \<lparr>instr = 0x89, params = ''''\<rparr>),
     (''LALX'', Op \<lparr>instr = 0x8A, params = ''''\<rparr>),
     (''LALY'', Op \<lparr>instr = 0x8B, params = ''''\<rparr>),
     (''LALZ'', Op \<lparr>instr = 0x8C, params = ''''\<rparr>),
     (''LALS'', Op \<lparr>instr = 0x8D, params = ''''\<rparr>),
     (''LALC'', Op \<lparr>instr = 0x8E, params = ''''\<rparr>),
     (''LALP'', Op \<lparr>instr = 0x8F, params = ''''\<rparr>),
     (''LDAW'', Group \<lparr>literal = Some \<lparr>instr = 0x90, params = ''#Literal''\<rparr>,
        direct = Some \<lparr>instr = 0x91, params = ''Direct''\<rparr>,
        indirect = Some \<lparr>instr = 0x92, params = ''[Indirect]''\<rparr>,
        pc_direct = Some \<lparr>instr = 0x93, params = ''PC+N''\<rparr>,
        pc_indirect = Some \<lparr>instr = 0x94, params = ''[PC+N]''\<rparr>,
        register = Some \<lparr>instr = 0x95, params = ''Word Register, Mod.''\<rparr>\<rparr>),
     (''LAWA'', Op \<lparr>instr = 0x98, params = ''''\<rparr>),
     (''LAWB'', Op \<lparr>instr = 0x99, params = ''''\<rparr>),
     (''LAWX'', Op \<lparr>instr = 0x9A, params = ''''\<rparr>),
     (''LAWY'', Op \<lparr>instr = 0x9B, params = ''''\<rparr>),
     (''LAWZ'', Op \<lparr>instr = 0x9C, params = ''''\<rparr>),
     (''LAWS'', Op \<lparr>instr = 0x9D, params = ''''\<rparr>),
     (''LAWC'', Op \<lparr>instr = 0x9E, params = ''''\<rparr>),
     (''LAWP'', Op \<lparr>instr = 0x9F, params = ''''\<rparr>),
     (''STAL'', Group \<lparr>literal = Some \<lparr>instr = 0xA0, params = ''Store Location''\<rparr>,
        direct = Some \<lparr>instr = 0xA1, params = ''Direct''\<rparr>,
        indirect = Some \<lparr>instr = 0xA2, params = ''[Indirect]''\<rparr>,
        pc_direct = Some \<lparr>instr = 0xA3, params = ''PC+N''\<rparr>,
        pc_indirect = Some \<lparr>instr = 0xA4, params = ''[PC+N]''\<rparr>,
        register = Some \<lparr>instr = 0xA5, params = ''Word Register, Mod.''\<rparr>\<rparr>),
     (''SALA'', Op \<lparr>instr = 0xA8, params = ''''\<rparr>),
     (''SALB'', Op \<lparr>instr = 0xA9, params = ''''\<rparr>),
     (''SALX'', Op \<lparr>instr = 0xAA, params = ''''\<rparr>),
     (''SALY'', Op \<lparr>instr = 0xAB, params = ''''\<rparr>),
     (''SALZ'', Op \<lparr>instr = 0xAC, params = ''''\<rparr>),
     (''SALS'', Op \<lparr>instr = 0xAD, params = ''''\<rparr>),
     (''SALC'', Op \<lparr>instr = 0xAE, params = ''''\<rparr>),
     (''SALP'', Op \<lparr>instr = 0xAF, params = ''''\<rparr>),
     (''STAW'', Group \<lparr>literal = Some \<lparr>instr = 0xB0, params = ''Store Location''\<rparr>,
        direct = Some \<lparr>instr = 0xB1, params = ''Direct''\<rparr>,
        indirect = Some \<lparr>instr = 0xB2, params = ''[Indirect]''\<rparr>,
        pc_direct = Some \<lparr>instr = 0xB3, params = ''PC+N''\<rparr>,
        pc_indirect = Some \<lparr>instr = 0xB4, params = ''[PC+N]''\<rparr>,
        register = Some \<lparr>instr = 0xB5, params = ''Word Register, Mod.''\<rparr>\<rparr>),
     (''SAWA'', Op \<lparr>instr = 0xB8, params = ''''\<rparr>),
     (''SAWB'', Op \<lparr>instr = 0xB9, params = ''''\<rparr>),
     (''SAWX'', Op \<lparr>instr = 0xBA, params = ''''\<rparr>),
     (''SAWY'', Op \<lparr>instr = 0xBB, params = ''''\<rparr>),
     (''SAWZ'', Op \<lparr>instr = 0xBC, params = ''''\<rparr>),
     (''SAWS'', Op \<lparr>instr = 0xBD, params = ''''\<rparr>),
     (''SAWC'', Op \<lparr>instr = 0xBE, params = ''''\<rparr>),
     (''SAWP'', Op \<lparr>instr = 0xBF, params = ''''\<rparr>),
     (''LDBL'', Group \<lparr>literal = Some \<lparr>instr = 0xC0, params = ''#Literal''\<rparr>,
        direct = Some \<lparr>instr = 0xC1, params = ''Direct''\<rparr>,
        indirect = Some \<lparr>instr = 0xC2, params = ''[Indirect]''\<rparr>,
        pc_direct = Some \<lparr>instr = 0xC3, params = ''PC+N''\<rparr>,
        pc_indirect = Some \<lparr>instr = 0xC4, params = ''[PC+N]''\<rparr>,
        register = Some \<lparr>instr = 0xC5, params = ''Word Register, Mod.''\<rparr>\<rparr>),
     (''LBLA'', Op \<lparr>instr = 0xC8, params = ''''\<rparr>),
     (''LBLB'', Op \<lparr>instr = 0xC9, params = ''''\<rparr>),
     (''LBLX'', Op \<lparr>instr = 0xCA, params = ''''\<rparr>),
     (''LBLY'', Op \<lparr>instr = 0xCB, params = ''''\<rparr>),
     (''LBLZ'', Op \<lparr>instr = 0xCC, params = ''''\<rparr>),
     (''LBLS'', Op \<lparr>instr = 0xCD, params = ''''\<rparr>),
     (''LBLC'', Op \<lparr>instr = 0xCE, params = ''''\<rparr>),
     (''LBLP'', Op \<lparr>instr = 0xCF, params = ''''\<rparr>),
     (''LDBW'', Group \<lparr>literal = Some \<lparr>instr = 0xD0, params = ''#Literal''\<rparr>,
        direct = Some \<lparr>instr = 0xD1, params = ''Direct''\<rparr>,
        indirect = Some \<lparr>instr = 0xD2, params = ''[Indirect]''\<rparr>,
        pc_direct = Some \<lparr>instr = 0xD3, params = ''PC+N''\<rparr>,
        pc_indirect = Some \<lparr>instr = 0xD4, params = ''[PC+N]''\<rparr>,
        register = Some \<lparr>instr = 0xD5, params = ''Word Register, Mod.''\<rparr>\<rparr>),
     (''LBWA'', Op \<lparr>instr = 0xD8, params = ''''\<rparr>),
     (''LBWB'', Op \<lparr>instr = 0xD9, params = ''''\<rparr>),
     (''LBWX'', Op \<lparr>instr = 0xDA, params = ''''\<rparr>),
     (''LDBW'', Op \<lparr>instr = 0xDB, params = ''''\<rparr>),
     (''LBWZ'', Op \<lparr>instr = 0xDC, params = ''''\<rparr>),
     (''LBWS'', Op \<lparr>instr = 0xDD, params = ''''\<rparr>),
     (''LBWC'', Op \<lparr>instr = 0xDE, params = ''''\<rparr>),
     (''LBWP'', Op \<lparr>instr = 0xDF, params = ''''\<rparr>),
     (''STBL'', Group \<lparr>literal = Some \<lparr>instr = 0xE0, params = ''Store Location''\<rparr>,
        direct = Some \<lparr>instr = 0xE1, params = ''Direct''\<rparr>,
        indirect = Some \<lparr>instr = 0xE2, params = ''[Indirect]''\<rparr>,
        pc_direct = Some \<lparr>instr = 0xE3, params = ''PC+N''\<rparr>,
        pc_indirect = Some \<lparr>instr = 0xE4, params = ''[PC+N]''\<rparr>,
        register = Some \<lparr>instr = 0xE5, params = ''Word Register, Mod.''\<rparr>\<rparr>),
     (''SBLA'', Op \<lparr>instr = 0xE8, params = ''''\<rparr>),
     (''SBLB'', Op \<lparr>instr = 0xE9, params = ''''\<rparr>),
     (''SBLX'', Op \<lparr>instr = 0xEA, params = ''''\<rparr>),
     (''SBLY'', Op \<lparr>instr = 0xEB, params = ''''\<rparr>),
     (''SBLZ'', Op \<lparr>instr = 0xEC, params = ''''\<rparr>),
     (''SBLS'', Op \<lparr>instr = 0xED, params = ''''\<rparr>),
     (''SBLC'', Op \<lparr>instr = 0xEE, params = ''''\<rparr>),
     (''SBLP'', Op \<lparr>instr = 0xEF, params = ''''\<rparr>),
     (''STBW'', Group \<lparr>literal = Some \<lparr>instr = 0xF0, params = ''Store Location''\<rparr>,
        direct = Some \<lparr>instr = 0xF1, params = ''Direct''\<rparr>,
        indirect = Some \<lparr>instr = 0xF2, params = ''[Indirect]''\<rparr>,
        pc_direct = Some \<lparr>instr = 0xF3, params = ''PC+N''\<rparr>,
        pc_indirect = Some \<lparr>instr = 0xF4, params = ''[PC+N]''\<rparr>,
        register = Some \<lparr>instr = 0xF5, params = ''Word Register, Mod.''\<rparr>\<rparr>),
     (''SBWA'', Op \<lparr>instr = 0xF8, params = ''''\<rparr>),
     (''SBWB'', Op \<lparr>instr = 0xF9, params = ''''\<rparr>),
     (''SBWX'', Op \<lparr>instr = 0xFA, params = ''''\<rparr>),
     (''SBWY'', Op \<lparr>instr = 0xFB, params = ''''\<rparr>),
     (''SBWZ'', Op \<lparr>instr = 0xFC, params = ''''\<rparr>),
     (''SBWS'', Op \<lparr>instr = 0xFD, params = ''''\<rparr>),
     (''SBWC'', Op \<lparr>instr = 0xFE, params = ''''\<rparr>),
     (''SBWP'', Op \<lparr>instr = 0xFF, params = ''''\<rparr>)]"

text \<open>
  A Python dictionary display inserts its pairs from left to right. A key that is already
  present keeps its position and has its value replaced; no error is raised.
\<close>

definition dict_display :: "('k \<times> 'v) list \<Rightarrow> ('k \<times> 'v) list" where
  "dict_display kvs = fold (\<lambda>(k, v) d. AList.update k v d) kvs []"

definition MNEMONICS :: "(string \<times> mnemonic) list" where
  "MNEMONICS = dict_display MNEMONICS_display"

text \<open>
  \<^verbatim>\<open>MNEMONICS[key]\<close>: the value bound to the key, or \<^verbatim>\<open>KeyError\<close> (here \<open>None\<close>).
\<close>

definition MNEMONICS_getitem :: "string \<Rightarrow> mnemonic option" where
  "MNEMONICS_getitem key = map_of MNEMONICS key"
section \<open>Text handling\<close>

text \<open>
  A Python \<^verbatim>\<open>str\<close> is a sequence of Unicode code points; it is modelled as the list of
  their numbers. \<open>str_of\<close> gives the \<^verbatim>\<open>str\<close> of a literal written with characters below
  256. \<open>LF\<close> and \<open>CR\<close> are the two line-break characters.
\<close>

type_synonym str = "nat list"

definition str_of :: "string \<Rightarrow> str" where
  "str_of s = map of_char s"

definition LF :: nat where
  "LF = 0x0A"

definition CR :: nat where
  "CR = 0x0D"

definition semicolon :: nat where
  "semicolon = of_char (CHR '';'')"

text \<open>
  The characters that \<^verbatim>\<open>str.strip()\<close> removes and that \<^verbatim>\<open>\s\<close> matches in a \<^verbatim>\<open>str\<close>
  pattern, the Unicode whitespace: tab, line feed, vertical tab, form feed, carriage
  return, the four separators 0x1C to 0x1F, space, next-line 0x85, no-break space 0xA0,
  and the spaces and separators 0x1680, 0x2000 to 0x200A, 0x2028, 0x2029, 0x202F, 0x205F
  and 0x3000.
\<close>

definition isspace :: "nat \<Rightarrow> bool" where
  "isspace c \<longleftrightarrow> c \<in> set [0x09, 0x0A, 0x0B, 0x0C, 0x0D, 0x1C, 0x1D, 0x1E, 0x1F, 0x20,
                          0x85, 0xA0, 0x1680,
                          0x2000, 0x2001, 0x2002, 0x2003, 0x2004, 0x2005, 0x2006, 0x2007,
                          0x2008, 0x2009, 0x200A,
                          0x2028, 0x2029, 0x202F, 0x205F, 0x3000]"

text \<open>\<^verbatim>\<open>line.strip()\<close>: leading and trailing whitespace removed.\<close>

definition strip :: "str \<Rightarrow> str" where
  "strip s = rev (dropWhile isspace (rev (dropWhile isspace s)))"

text \<open>
  The pattern \<^verbatim>\<open>^(.*?)(?:;.+)?$\<close> is compiled without flags, so \<^verbatim>\<open>.\<close> matches any
  character but line feed, \<^verbatim>\<open>^\<close> matches at the start of the string only, and \<^verbatim>\<open>$\<close>
  matches at the end of the string and just before a line feed that ends the string.
\<close>

definition at_dollar :: "str \<Rightarrow> bool" where
  "at_dollar rest \<longleftrightarrow> rest = [] \<or> rest = [LF]"

text \<open>
  The tail \<^verbatim>\<open>(?:;.+)?$\<close> of the pattern, tried at the text \<open>rest\<close> that follows group 1;
  the result is the text left after the match. The optional group is greedy, so it is
  tried first: a semicolon, then \<^verbatim>\<open>.+\<close> takes the longest run of characters other than
  line feed, which must not be empty. Giving characters back cannot help \<^verbatim>\<open>$\<close>, which
  would then stand before a character other than line feed. If the group does not lead to
  a match it is skipped and \<^verbatim>\<open>$\<close> is tried at \<open>rest\<close> itself.
\<close>

definition match_tail :: "str \<Rightarrow> str option" where
  "match_tail rest =
     (case rest of
        [] \<Rightarrow> Some []
      | c # cs \<Rightarrow>
          if c = semicolon \<and> takeWhile (\<lambda>d. d \<noteq> LF) cs \<noteq> []
               \<and> at_dollar (dropWhile (\<lambda>d. d \<noteq> LF) cs)
          then Some (dropWhile (\<lambda>d. d \<noteq> LF) cs)
          else if at_dollar rest then Some rest else None)"

text \<open>
  The whole pattern, anchored at the start of the string. Group 1 is lazy: it is extended
  one character at a time (never over a line feed) until the tail matches. The result is
  group 1 and the text left after the match, or \<open>None\<close> when there is no match.
\<close>

fun line_cleaner_match :: "str \<Rightarrow> (str \<times> str) option" where
  "line_cleaner_match [] = Some ([], [])"
| "line_cleaner_match (c # cs) =
     (case match_tail (c # cs) of
        Some rest \<Rightarrow> Some ([], rest)
      | None \<Rightarrow>
          if c = LF then None
          else (case line_cleaner_match cs of
                  None \<Rightarrow> None
                | Some (g, rest) \<Rightarrow> Some (c # g, rest)))"

text \<open>
  \<^verbatim>\<open>line_cleaner.sub(r"\1", line)\<close>: the match is replaced by its group 1. Since \<^verbatim>\<open>^\<close>
  matches at the start only, there is at most one match; without a match the line is
  returned as it is.
\<close>

definition line_cleaner_sub :: "str \<Rightarrow> str" where
  "line_cleaner_sub line =
     (case line_cleaner_match line of
        None \<Rightarrow> line
      | Some (g, rest) \<Rightarrow> g @ rest)"

text \<open>
  \<^verbatim>\<open>re.split(r"\s+", line)\<close>: the pieces of the line between the maximal runs of
  whitespace. A run at the start or at the end of the line gives an empty first or last
  piece; a line without whitespace is its own single piece.
\<close>

function re_split_ws :: "str \<Rightarrow> str list" where
  "re_split_ws s =
     (let piece = takeWhile (\<lambda>c. \<not> isspace c) s;
          rest = dropWhile (\<lambda>c. \<not> isspace c) s
      in if rest = [] then [piece]
         else piece # re_split_ws (dropWhile isspace rest))"
  by pat_completeness auto
termination
proof (relation "measure length")
  show "wf (measure length)" by simp
next
  fix s :: str and piece rest
  assume r: "rest = dropWhile (\<lambda>c. \<not> isspace c) s" and ne: "rest \<noteq> []"
  from ne obtain c cs where rc: "rest = c # cs"
    by (cases rest) simp_all
  have "isspace c"
    using r rc dropWhile_eq_Cons_conv [of "\<lambda>c. \<not> isspace c" s c cs] by simp
  then have "length (dropWhile isspace rest) \<le> length cs"
    by (simp add: rc length_dropWhile_le)
  moreover have "length rest \<le> length s"
    by (simp add: r length_dropWhile_le)
  ultimately show "(dropWhile isspace rest, s) \<in> measure length"
    by (simp add: rc)
qed

declare re_split_ws.simps [simp del]

section \<open>Errors\<close>

text \<open>
  The exceptions that can leave the code: \<^verbatim>\<open>IndexError\<close> from \<^verbatim>\<open>terms.pop(-1)\<close> on an
  empty list and from \<^verbatim>\<open>sys.argv[1]\<close>; \<^verbatim>\<open>FileNotFoundError\<close>, \<^verbatim>\<open>IsADirectoryError\<close> and
  \<^verbatim>\<open>PermissionError\<close> from \<^verbatim>\<open>open\<close>, each with the path; and \<^verbatim>\<open>UnicodeDecodeError\<close> from
  reading the file. The \<^verbatim>\<open>KeyError\<close> of the dictionary lookup is caught inside the loop.
\<close>

datatype py_error =
    IndexError
  | FileNotFoundError string
  | IsADirectoryError string
  | PermissionError string
  | UnicodeDecodeError

text \<open>\<^verbatim>\<open>terms.pop(-1)\<close>: the last element and the list without it.\<close>

definition pop_last :: "'a list \<Rightarrow> py_error + ('a \<times> 'a list)" where
  "pop_last xs = (if xs = [] then Inl IndexError else Inr (last xs, butlast xs))"

section \<open>The function \<^verbatim>\<open>assemble\<close>\<close>

text \<open>
  The only mutable object of \<^verbatim>\<open>assemble\<close> is the dictionary \<^verbatim>\<open>out_buf\<close>, created as
  \<^verbatim>\<open>{"_default": []}\<close>: named buffers of output bytes.
\<close>

record asm_state =
  out_buf :: "(string \<times> int list) list"

definition initial_state :: asm_state where
  "initial_state = \<lparr>out_buf = [(''_default'', [])]\<rparr>"

text \<open>\<^verbatim>\<open>line = line_cleaner.sub(r"\1", line).strip()\<close> (line 330).\<close>

definition clean_line :: "str \<Rightarrow> str" where
  "clean_line line = strip (line_cleaner_sub line)"

text \<open>
  \<^verbatim>\<open>MNEMONICS[operand]\<close> for a piece of a line: the keys of the dictionary as \<^verbatim>\<open>str\<close>
  values. A piece that is no key gives \<^verbatim>\<open>KeyError\<close> (here \<open>None\<close>).
\<close>

definition MNEMONICS_getitem_str :: "str \<Rightarrow> mnemonic option" where
  "MNEMONICS_getitem_str operand = map_of (map (\<lambda>(k, v). (str_of k, v)) MNEMONICS) operand"

text \<open>
  One round of the loop over the lines (lines 330 to 346). An empty cleaned line is
  skipped. Otherwise the line is split at whitespace, the last piece is popped and named
  \<^verbatim>\<open>operand\<close>, and \<^verbatim>\<open>operand\<close> is looked up in \<^verbatim>\<open>MNEMONICS\<close>; a \<^verbatim>\<open>KeyError\<close> is caught
  and the line skipped. Both branches of the \<^verbatim>\<open>isinstance\<close> test are \<^verbatim>\<open>pass\<close>.
\<close>

definition process_line :: "str \<Rightarrow> asm_state \<Rightarrow> py_error + asm_state" where
  "process_line line st =
     (let line = clean_line line
      in if line = [] then Inr st
         else (case pop_last (re_split_ws line) of
                 Inl e \<Rightarrow> Inl e
               | Inr (operand, terms) \<Rightarrow>
                   (case MNEMONICS_getitem_str operand of
                      None \<Rightarrow> Inr st
                    | Some mnemonic \<Rightarrow>
                        if isinstance_OpcodeGroup mnemonic then Inr st else Inr st)))"

text \<open>\<^verbatim>\<open>for line in source\<close>: an exception that leaves the body ends the loop.\<close>

fun assemble_loop :: "str list \<Rightarrow> asm_state \<Rightarrow> py_error + asm_state" where
  "assemble_loop [] st = Inr st"
| "assemble_loop (line # lines) st =
     (case process_line line st of
        Inl e \<Rightarrow> Inl e
      | Inr st' \<Rightarrow> assemble_loop lines st')"

text \<open>
  The file is opened in text mode with the default \<^verbatim>\<open>newline=None\<close>: the line endings
  CR LF and CR are translated to LF, and iterating over the file gives the lines, each
  with its ending LF (the last line has none when the file does not end in a line break).
\<close>

fun universal_newlines :: "str \<Rightarrow> str" where
  "universal_newlines [] = []"
| "universal_newlines [c] = (if c = CR then [LF] else [c])"
| "universal_newlines (c # d # cs) =
     (if c = CR \<and> d = LF then LF # universal_newlines cs
      else if c = CR then LF # universal_newlines (d # cs)
      else c # universal_newlines (d # cs))"

fun file_lines :: "str \<Rightarrow> str list" where
  "file_lines [] = []"
| "file_lines (c # cs) =
     (if c = LF then [LF] # file_lines cs
      else (case file_lines cs of
              [] \<Rightarrow> [[c]]
            | l # ls \<Rightarrow> (c # l) # ls))"

text \<open>
  The loop of \<^verbatim>\<open>assemble\<close> on the decoded text of the opened file: the local state when
  the loop is left.
\<close>

definition assemble_source :: "str \<Rightarrow> py_error + asm_state" where
  "assemble_source content =
     assemble_loop (file_lines (universal_newlines content)) initial_state"

section \<open>Files\<close>

text \<open>
  The bytes of a file are decoded as UTF-8, the encoding that the specification names
  for the input. The decoder is strict: it accepts the well-formed sequences only (no
  overlong forms, no surrogates, nothing above 0x10FFFF) and raises \<^verbatim>\<open>UnicodeDecodeError\<close>
  on anything else. \<open>utf8_low\<close> and \<open>utf8_high\<close> bound the second byte of a sequence,
  which depends on the first.
\<close>

definition continuation :: "nat \<Rightarrow> bool" where
  "continuation b \<longleftrightarrow> 0x80 \<le> b \<and> b \<le> 0xBF"

definition utf8_low :: "nat \<Rightarrow> nat" where
  "utf8_low b0 = (if b0 = 0xE0 then 0xA0 else if b0 = 0xF0 then 0x90 else 0x80)"

definition utf8_high :: "nat \<Rightarrow> nat" where
  "utf8_high b0 = (if b0 = 0xED then 0x9F else if b0 = 0xF4 then 0x8F else 0xBF)"

fun utf8_code_points :: "nat list \<Rightarrow> str option" where
  "utf8_code_points [] = Some []"
| "utf8_code_points (b0 # bs) =
     (if b0 < 0x80 then map_option ((#) b0) (utf8_code_points bs)
      else if 0xC2 \<le> b0 \<and> b0 \<le> 0xDF then
        (case bs of
           b1 # r \<Rightarrow>
             if continuation b1
             then map_option ((#) ((b0 - 0xC0) * 0x40 + (b1 - 0x80))) (utf8_code_points r)
             else None
         | _ \<Rightarrow> None)
      else if 0xE0 \<le> b0 \<and> b0 \<le> 0xEF then
        (case bs of
           b1 # b2 # r \<Rightarrow>
             if utf8_low b0 \<le> b1 \<and> b1 \<le> utf8_high b0 \<and> continuation b2
             then map_option
                    ((#) ((b0 - 0xE0) * 0x1000 + (b1 - 0x80) * 0x40 + (b2 - 0x80)))
                    (utf8_code_points r)
             else None
         | _ \<Rightarrow> None)
      else if 0xF0 \<le> b0 \<and> b0 \<le> 0xF4 then
        (case bs of
           b1 # b2 # b3 # r \<Rightarrow>
             if utf8_low b0 \<le> b1 \<and> b1 \<le> utf8_high b0 \<and> continuation b2 \<and> continuation b3
             then map_option
                    ((#) ((b0 - 0xF0) * 0x40000 + (b1 - 0x80) * 0x1000 + (b2 - 0x80) * 0x40
                          + (b3 - 0x80)))
                    (utf8_code_points r)
             else None
         | _ \<Rightarrow> None)
      else None)"

definition utf8_decode :: "string \<Rightarrow> py_error + str" where
  "utf8_decode bytes =
     (case utf8_code_points (map of_char bytes) of
        None \<Rightarrow> Inl UnicodeDecodeError
      | Some text \<Rightarrow> Inr text)"

text \<open>
  What the program can touch outside itself: the paths, each a directory or a file (is
  it readable, and its bytes), and the error stream, which receives the traceback of an
  uncaught exception.
\<close>

datatype node = Directory | File bool string

record world =
  files :: "(string \<times> node) list"
  stderr :: "py_error list"

text \<open>
  \<^verbatim>\<open>open(file_name, "r")\<close> and the reading of the file. \<^verbatim>\<open>open\<close> raises
  \<^verbatim>\<open>FileNotFoundError\<close> when there is no such path, \<^verbatim>\<open>IsADirectoryError\<close> on a directory
  and \<^verbatim>\<open>PermissionError\<close> on a file that may not be read. The file object decodes the
  bytes in chunks while the loop runs, so that in a long file rounds of the loop come
  before a \<^verbatim>\<open>UnicodeDecodeError\<close>; here the bytes are decoded before the loop starts.
\<close>

definition open_read :: "string \<Rightarrow> world \<Rightarrow> py_error + str" where
  "open_read file_name w =
     (case map_of (files w) file_name of
        None \<Rightarrow> Inl (FileNotFoundError file_name)
      | Some Directory \<Rightarrow> Inl (IsADirectoryError file_name)
      | Some (File readable bytes) \<Rightarrow>
          if readable then utf8_decode bytes else Inl (PermissionError file_name))"

text \<open>
  \<^verbatim>\<open>assemble(file_name)\<close>. The function has no \<^verbatim>\<open>return\<close> statement, so it returns
  \<^verbatim>\<open>None\<close> (here \<open>()\<close>); the local \<^verbatim>\<open>out_buf\<close> is dropped. No statement of the function
  writes to a file or to a stream.
\<close>

definition assemble :: "string \<Rightarrow> world \<Rightarrow> (py_error + unit) \<times> world" where
  "assemble file_name w =
     (case open_read file_name w of
        Inl e \<Rightarrow> (Inl e, w)
      | Inr content \<Rightarrow>
          (case assemble_source content of
             Inl e \<Rightarrow> (Inl e, w)
           | Inr st \<Rightarrow> (Inr (), w)))"

text \<open>
  The script (lines 349 to 351): \<^verbatim>\<open>sys.argv[1]\<close> raises \<^verbatim>\<open>IndexError\<close> when no argument
  is given. The interpreter ends with exit status 0 when the script runs to its end, and
  prints the traceback and ends with exit status 1 when an exception is not caught.
\<close>

definition sys_argv_1 :: "string list \<Rightarrow> py_error + string" where
  "sys_argv_1 argv = (if 1 < length argv then Inr (argv ! 1) else Inl IndexError)"

definition main :: "string list \<Rightarrow> world \<Rightarrow> int \<times> world" where
  "main argv w =
     (case sys_argv_1 argv of
        Inl e \<Rightarrow> (1, w\<lparr>stderr := stderr w @ [e]\<rparr>)
      | Inr file_name \<Rightarrow>
          (case assemble file_name w of
             (Inl e, w') \<Rightarrow> (1, w'\<lparr>stderr := stderr w' @ [e]\<rparr>)
           | (Inr u, w') \<Rightarrow> (0, w')))"

section \<open>Notions used in the statements\<close>

text \<open>
  The mode offsets of a group: all six opcodes are present, and counted from the literal
  opcode the others lie at 1 (direct), 2 (indirect), 3 (pc-direct), 4 (pc-indirect) and 5
  (register).
\<close>

definition mode_offsets_ok :: "OpcodeGroup \<Rightarrow> bool" where
  "mode_offsets_ok g =
     (case (literal g, direct g, indirect g, pc_direct g, pc_indirect g, register g) of
        (Some l, Some d, Some i, Some pd, Some pi, Some r) \<Rightarrow>
          instr d = instr l + 1 \<and> instr i = instr l + 2 \<and> instr pd = instr l + 3
          \<and> instr pi = instr l + 4 \<and> instr r = instr l + 5
      | _ \<Rightarrow> False)"

text \<open>A fixed mnemonic: a plain \<^verbatim>\<open>Opcode\<close> whose \<^verbatim>\<open>params\<close> text is empty.\<close>

fun no_operand :: "mnemonic \<Rightarrow> bool" where
  "no_operand (Op opc) = (params opc = [])"
| "no_operand (Group g) = False"

text \<open>A token: a non-empty text without whitespace and without semicolon.\<close>

definition plain_token :: "str \<Rightarrow> bool" where
  "plain_token k \<longleftrightarrow> k \<noteq> [] \<and> list_all (\<lambda>c. \<not> isspace c \<and> c \<noteq> semicolon) k"

section \<open>Properties of the catalog and of the loop\<close>

subsection \<open>Dictionary displays\<close>

lemma set_fold_update:
  "set (fold (\<lambda>(k, v) d. AList.update k v d) kvs acc) \<subseteq> set kvs \<union> set acc"
proof (induction kvs arbitrary: acc)
  case Nil
  show ?case by simp
next
  case (Cons kv kvs)
  obtain k v where kv: "kv = (k, v)" by (cases kv)
  have "set (AList.update k v acc) \<subseteq> insert (k, v) (set acc)"
    by (induction acc) auto
  with Cons.IH [of "AList.update k v acc"] show ?case
    unfolding kv by auto
qed

lemma map_of_fold_update:
  "map_of (fold (\<lambda>(k, v) d. AList.update k v d) kvs acc) = map_of acc ++ map_of (rev kvs)"
proof (induction kvs arbitrary: acc)
  case Nil
  show ?case by simp
next
  case (Cons kv kvs)
  obtain k v where kv: "kv = (k, v)" by (cases kv)
  show ?case unfolding kv
    by (simp add: Cons.IH update_conv' map_add_def fun_eq_iff split: option.splits)
qed

lemma distinct_fold_update:
  "distinct (map fst acc) \<Longrightarrow>
   distinct (map fst (fold (\<lambda>(k, v) d. AList.update k v d) kvs acc))"
proof (induction kvs arbitrary: acc)
  case Nil
  then show ?case by simp
next
  case (Cons kv kvs)
  obtain k v where kv: "kv = (k, v)" by (cases kv)
  from Cons.prems have "distinct (map fst (AList.update k v acc))"
    by (rule distinct_update)
  from Cons.IH [OF this] show ?case
    unfolding kv by simp
qed

lemma set_dict_display: "set (dict_display kvs) \<subseteq> set kvs"
  using set_fold_update [of kvs "[]"] by (simp add: dict_display_def)

lemma map_of_dict_display: "map_of (dict_display kvs) = map_of (rev kvs)"
  by (simp add: dict_display_def map_of_fold_update)

lemma distinct_dict_display: "distinct (map fst (dict_display kvs))"
  using distinct_fold_update [of "[]" kvs] by (simp add: dict_display_def)

lemma getitem_rev: "MNEMONICS_getitem key = map_of (rev MNEMONICS_display) key"
  by (simp add: MNEMONICS_getitem_def MNEMONICS_def map_of_dict_display)

lemma getitem_None_iff:
  "MNEMONICS_getitem key = None \<longleftrightarrow> key \<notin> set (map fst MNEMONICS_display)"
  by (simp add: getitem_rev map_of_eq_None_iff)

lemma getitem_in_items:
  "MNEMONICS_getitem key = Some v \<longleftrightarrow> (key, v) \<in> set MNEMONICS"
  unfolding MNEMONICS_getitem_def MNEMONICS_def
  using distinct_dict_display [of MNEMONICS_display]
  by (auto dest: map_of_SomeD)

lemma str_of_eq_iff: "str_of a = str_of b \<longleftrightarrow> a = b"
  unfolding str_of_def by (rule inj_map_eq_map) (rule inj_of_char)

lemma map_of_str_keys:
  "map_of (map (\<lambda>(k, v). (str_of k, v)) kvs) (str_of key) = map_of kvs key"
  by (induction kvs) (auto simp: str_of_eq_iff)

lemma getitem_str_of: "MNEMONICS_getitem_str (str_of key) = MNEMONICS_getitem key"
  by (simp add: MNEMONICS_getitem_str_def MNEMONICS_getitem_def map_of_str_keys)

lemma getitem_in_display:
  "MNEMONICS_getitem key = Some v \<Longrightarrow> (key, v) \<in> set MNEMONICS_display"
  using set_dict_display [of MNEMONICS_display]
  by (auto simp: getitem_in_items MNEMONICS_def)

subsection \<open>Splitting and popping\<close>

lemma re_split_ws_not_Nil: "re_split_ws s \<noteq> []"
  by (subst re_split_ws.simps) (simp add: Let_def)

lemma pop_last_re_split_ws:
  "pop_last (re_split_ws s) = Inr (last (re_split_ws s), butlast (re_split_ws s))"
  by (simp add: pop_last_def re_split_ws_not_Nil)

lemma process_line_Inr: "process_line line st = Inr st"
  by (simp add: process_line_def Let_def pop_last_re_split_ws split: option.splits)

lemma assemble_loop_Inr: "assemble_loop lines st = Inr st"
  by (induction lines) (simp_all add: process_line_Inr)

lemma assemble_source_Inr: "assemble_source content = Inr initial_state"
  by (simp add: assemble_source_def assemble_loop_Inr)

subsection \<open>Cleaning a line\<close>

lemma not_isspace_semicolon: "\<not> isspace semicolon"
  by (simp add: isspace_def semicolon_def)

lemma LF_not_semicolon: "LF \<noteq> semicolon" "semicolon \<noteq> LF"
  by (simp_all add: LF_def semicolon_def)

lemma isspace_LF: "isspace LF"
  by (simp add: isspace_def LF_def)

lemma match_tail_no_semicolon:
  "c \<noteq> semicolon \<Longrightarrow> c \<noteq> LF \<Longrightarrow> match_tail (c # cs) = None"
  by (simp add: match_tail_def at_dollar_def)

lemma match_tail_dollar: "at_dollar rest \<Longrightarrow> match_tail rest = Some rest"
  by (auto simp: match_tail_def at_dollar_def LF_not_semicolon)

lemma line_cleaner_match_dollar:
  "at_dollar rest \<Longrightarrow> line_cleaner_match rest = Some ([], rest)"
  by (cases rest) (simp_all add: match_tail_dollar)

lemma line_cleaner_match_prefix:
  assumes "list_all (\<lambda>c. c \<noteq> LF \<and> c \<noteq> semicolon) pre"
    and "line_cleaner_match rest = Some (g, rest')"
  shows "line_cleaner_match (pre @ rest) = Some (pre @ g, rest')"
  using assms by (induction pre) (simp_all add: match_tail_no_semicolon)

lemma line_cleaner_match_comment:
  assumes "cmt \<noteq> []" and "list_all (\<lambda>c. c \<noteq> LF) cmt" and "at_dollar rest"
  shows "line_cleaner_match (semicolon # cmt @ rest) = Some ([], rest)"
proof -
  have tw: "takeWhile (\<lambda>d. d \<noteq> LF) (cmt @ rest) = cmt"
    using assms(2,3) by (induction cmt) (auto simp: at_dollar_def)
  have dw: "dropWhile (\<lambda>d. d \<noteq> LF) (cmt @ rest) = rest"
    using assms(2,3) by (induction cmt) (auto simp: at_dollar_def)
  show ?thesis
    using assms(1,3) by (simp add: match_tail_def tw dw)
qed

lemma line_cleaner_match_bare:
  assumes "at_dollar rest"
  shows "line_cleaner_match (semicolon # rest) = Some ([semicolon], rest)"
  using assms
  by (auto simp: match_tail_def at_dollar_def LF_not_semicolon)

lemma strip_token:
  assumes "list_all (\<lambda>c. \<not> isspace c) k"
  shows "strip k = k" and "strip (k @ [LF]) = k"
proof -
  have a: "dropWhile isspace xs = xs" if "list_all (\<lambda>c. \<not> isspace c) xs" for xs
    using that by (cases xs) simp_all
  have r: "list_all (\<lambda>c. \<not> isspace c) (rev k)"
    using assms by (simp add: list_all_iff)
  show "strip k = k"
    by (simp add: strip_def a [OF assms] a [OF r])
  have "dropWhile isspace (k @ [LF]) = (if k = [] then [] else k @ [LF])"
    using assms by (cases k) (simp_all add: isspace_LF)
  then show "strip (k @ [LF]) = k"
    by (simp add: strip_def isspace_LF a [OF r])
qed

lemma clean_line_token:
  assumes "plain_token k"
  shows "clean_line k = k" and "clean_line (k @ [LF]) = k"
proof -
  from assms have ns: "list_all (\<lambda>c. \<not> isspace c) k"
    and nl: "list_all (\<lambda>c. c \<noteq> LF \<and> c \<noteq> semicolon) k"
    using isspace_LF by (auto simp: plain_token_def list_all_iff)
  have "line_cleaner_match (k @ []) = Some (k @ [], [])"
    by (rule line_cleaner_match_prefix [OF nl]) simp
  then show "clean_line k = k"
    by (simp add: clean_line_def line_cleaner_sub_def strip_token [OF ns])
  have "line_cleaner_match (k @ [LF]) = Some (k @ [], [LF])"
    by (rule line_cleaner_match_prefix [OF nl])
       (rule line_cleaner_match_dollar, simp add: at_dollar_def)
  then show "clean_line (k @ [LF]) = k"
    by (simp add: clean_line_def line_cleaner_sub_def strip_token [OF ns])
qed

lemma re_split_ws_token:
  assumes "plain_token k"
  shows "re_split_ws k = [k]"
proof -
  from assms have ns: "\<forall>c\<in>set k. \<not> isspace c"
    by (simp add: plain_token_def list_all_iff)
  then have "takeWhile (\<lambda>c. \<not> isspace c) k = k" "dropWhile (\<lambda>c. \<not> isspace c) k = []"
    by simp_all
  then show ?thesis
    by (subst re_split_ws.simps) (simp add: Let_def)
qed

lemma process_line_token:
  assumes "plain_token k"
  shows "pop_last (re_split_ws (clean_line (k @ [LF]))) = Inr (k, [])"
    and "pop_last (re_split_ws (clean_line k)) = Inr (k, [])"
  by (simp_all add: clean_line_token [OF assms] re_split_ws_token [OF assms] pop_last_def)

subsection \<open>Evaluating the catalog\<close>

lemma keys_plain_token:
  "list_all (\<lambda>k. plain_token (str_of k)) (map fst MNEMONICS_display)"
  by (simp add: MNEMONICS_display_def plain_token_def isspace_def semicolon_def str_of_def)

lemma groups_mode_offsets_ok:
  "list_all (\<lambda>(k, v). case v of Op opc \<Rightarrow> True | Group g \<Rightarrow> mode_offsets_ok g)
     MNEMONICS_display"
  by (simp add: MNEMONICS_display_def mode_offsets_ok_def)

lemma getitem_FOO: "MNEMONICS_getitem ''FOO'' = None"
  by (simp add: getitem_None_iff MNEMONICS_display_def)

lemma getitem_START: "MNEMONICS_getitem ''START'' = None"
  by (simp add: getitem_None_iff MNEMONICS_display_def)

lemma getitem_LBWY: "MNEMONICS_getitem ''LBWY'' = None"
  by (simp add: getitem_None_iff MNEMONICS_display_def)

lemma getitem_SBWP: "MNEMONICS_getitem ''SBWP'' = Some (Op \<lparr>instr = 0xFF, params = ''''\<rparr>)"
  by (simp add: getitem_rev MNEMONICS_display_def map_of_Cons_code del: map_of.simps)

lemma getitem_STBW:
  "MNEMONICS_getitem ''STBW'' =
     Some (Group \<lparr>literal = Some \<lparr>instr = 0xF0, params = ''Store Location''\<rparr>,
                  direct = Some \<lparr>instr = 0xF1, params = ''Direct''\<rparr>,
                  indirect = Some \<lparr>instr = 0xF2, params = ''[Indirect]''\<rparr>,
                  pc_direct = Some \<lparr>instr = 0xF3, params = ''PC+N''\<rparr>,
                  pc_indirect = Some \<lparr>instr = 0xF4, params = ''[PC+N]''\<rparr>,
                  register = Some \<lparr>instr = 0xF5, params = ''Word Register, Mod.''\<rparr>\<rparr>)"
  by (simp add: getitem_rev MNEMONICS_display_def map_of_Cons_code del: map_of.simps)

lemma getitem_LDBW: "MNEMONICS_getitem ''LDBW'' = Some (Op \<lparr>instr = 0xDB, params = ''''\<rparr>)"
  by (simp add: getitem_rev MNEMONICS_display_def map_of_Cons_code del: map_of.simps)

lemma getitem_NOP: "MNEMONICS_getitem ''NOP'' = Some (Op \<lparr>instr = 0x01, params = ''''\<rparr>)"
  by (simp add: getitem_rev MNEMONICS_display_def map_of_Cons_code del: map_of.simps)

lemma getitem_BL: "MNEMONICS_getitem ''BL'' = Some (Op \<lparr>instr = 0x10, params = ''PC+N''\<rparr>)"
  by (simp add: getitem_rev MNEMONICS_display_def map_of_Cons_code del: map_of.simps)

lemma getitem_INR:
  "MNEMONICS_getitem ''INR'' =
     Some (Op \<lparr>instr = 0x30,
               params = ''Word Register in high nibble, unsigned constant in low nibble''\<rparr>)"
  by (simp add: getitem_rev MNEMONICS_display_def map_of_Cons_code del: map_of.simps)

lemma line_cleaner_sub_comment:
  assumes "list_all (\<lambda>c. c \<noteq> LF \<and> c \<noteq> semicolon) pre"
    and "cmt \<noteq> []" and "list_all (\<lambda>c. c \<noteq> LF) cmt" and "at_dollar rest"
  shows "line_cleaner_sub (pre @ semicolon # cmt @ rest) = pre @ rest"
  using line_cleaner_match_prefix [OF assms(1) line_cleaner_match_comment [OF assms(2,3,4)]]
  by (simp add: line_cleaner_sub_def)

lemma line_cleaner_sub_bare:
  assumes "list_all (\<lambda>c. c \<noteq> LF \<and> c \<noteq> semicolon) pre" and "at_dollar rest"
  shows "line_cleaner_sub (pre @ semicolon # rest) = pre @ semicolon # rest"
  using line_cleaner_match_prefix [OF assms(1) line_cleaner_match_bare [OF assms(2)]]
  by (simp add: line_cleaner_sub_def)

subsection \<open>Evaluating the text functions\<close>

lemmas text_eval =
  clean_line_def line_cleaner_sub_def match_tail_def at_dollar_def strip_def isspace_def
  LF_def CR_def semicolon_def str_of_def pop_last_def Let_def

section \<open>The claims\<close>

text \<open>
  Claim C1, as stated, fails: for the program \<^verbatim>\<open>START: NOP\<close>, \<^verbatim>\<open>BL START\<close> the output
  buffer does not end as the bytes 0x01, 0x10, 0xFE.
\<close>

theorem C1_counterexample:
  "assemble_source (str_of ''START: NOP\<newline>BL START'')
     \<noteq> Inr \<lparr>out_buf = [(''_default'', [0x01, 0x10, 0xFE])]\<rparr>"
  by (simp add: assemble_source_Inr initial_state_def)

text \<open>
  Claim C1, amended: for the program \<^verbatim>\<open>START: NOP\<close>, \<^verbatim>\<open>BL START\<close> the function returns
  normally and produces no byte: the output buffer ends empty.
\<close>

theorem C1_no_bytes:
  "assemble_source (str_of ''START: NOP\<newline>BL START'')
     = Inr \<lparr>out_buf = [(''_default'', [])]\<rparr>"
  by (simp add: assemble_source_Inr initial_state_def)

text \<open>
  Claim C2, as stated, fails: \<^verbatim>\<open>NOP\<close> is a fixed mnemonic with opcode 0x01, and the round
  of the loop on the line \<^verbatim>\<open>NOP\<close> does not leave the byte 0x01 in the output buffer.
\<close>

theorem C2_counterexample:
  "MNEMONICS_getitem_str (str_of ''NOP'') = Some (Op \<lparr>instr = 0x01, params = ''''\<rparr>)
   \<and> \<not> (\<exists>st. process_line (str_of ''NOP\<newline>'') initial_state = Inr st
             \<and> map_of (out_buf st) ''_default'' = Some [0x01])"
  by (simp add: getitem_str_of getitem_NOP process_line_Inr initial_state_def)

text \<open>
  Claim C2, amended: for every fixed (no-operand) mnemonic of the catalog, on a line that
  holds just that mnemonic (with or without its line feed) the loop looks the mnemonic
  up, finds its plain \<^verbatim>\<open>Opcode\<close> entry, and appends no byte: the state, and with it the
  output buffer, is unchanged.
\<close>

theorem C2_fixed_mnemonic_no_byte:
  assumes "(k, v) \<in> set MNEMONICS" and "no_operand v"
  shows "pop_last (re_split_ws (clean_line (str_of k @ [LF]))) = Inr (str_of k, [])
         \<and> pop_last (re_split_ws (clean_line (str_of k))) = Inr (str_of k, [])
         \<and> MNEMONICS_getitem_str (str_of k) = Some v
         \<and> \<not> isinstance_OpcodeGroup v
         \<and> process_line (str_of k @ [LF]) st = Inr st
         \<and> process_line (str_of k) st = Inr st"
proof -
  from assms(1) have g: "MNEMONICS_getitem k = Some v"
    by (simp only: getitem_in_items)
  then have "k \<in> set (map fst MNEMONICS_display)"
    using getitem_None_iff [of k] by simp
  with keys_plain_token have t: "plain_token (str_of k)"
    by (auto simp: list_all_iff)
  from assms(2) have "\<not> isinstance_OpcodeGroup v"
    by (cases v) simp_all
  with process_line_token [OF t] g show ?thesis
    by (simp add: process_line_Inr getitem_str_of)
qed

theorem C2_fixed_mnemonic_no_byte_witness:
  "(''SBWP'', Op \<lparr>instr = 0xFF, params = ''''\<rparr>) \<in> set MNEMONICS
   \<and> no_operand (Op \<lparr>instr = 0xFF, params = ''''\<rparr>)
   \<and> pop_last (re_split_ws (clean_line (str_of ''SBWP\<newline>''))) = Inr (str_of ''SBWP'', [])
   \<and> MNEMONICS_getitem_str (str_of ''SBWP'') = Some (Op \<lparr>instr = 0xFF, params = ''''\<rparr>)
   \<and> process_line (str_of ''SBWP\<newline>'') initial_state = Inr initial_state"
proof -
  have m: "(''SBWP'', Op \<lparr>instr = 0xFF, params = ''''\<rparr>) \<in> set MNEMONICS"
    using getitem_SBWP by (simp only: getitem_in_items)
  have n: "no_operand (Op \<lparr>instr = 0xFF, params = ''''\<rparr>)"
    by simp
  have s: "str_of ''SBWP\<newline>'' = str_of ''SBWP'' @ [LF]"
    by (simp add: str_of_def LF_def)
  from C2_fixed_mnemonic_no_byte [OF m n, of initial_state] m n show ?thesis
    by (simp only: s)
qed

text \<open>
  Claim C3: every \<^verbatim>\<open>OpcodeGroup\<close> value of \<^verbatim>\<open>MNEMONICS\<close> (and every one written in the
  dictionary display) has its six opcodes at the offsets 0 to 5 from the literal opcode,
  in the order literal, direct, indirect, pc-direct, pc-indirect, register.
\<close>

theorem C3_mode_offsets:
  "(k, Group g) \<in> set MNEMONICS \<or> (k, Group g) \<in> set MNEMONICS_display
   \<Longrightarrow> mode_offsets_ok g"
proof -
  assume "(k, Group g) \<in> set MNEMONICS \<or> (k, Group g) \<in> set MNEMONICS_display"
  then have "(k, Group g) \<in> set MNEMONICS_display"
    using set_dict_display [of MNEMONICS_display] by (auto simp: MNEMONICS_def)
  with groups_mode_offsets_ok show ?thesis
    by (auto simp: list_all_iff)
qed

text \<open>
  The group bound to \<^verbatim>\<open>STBW\<close> is a value of the dictionary, with the opcodes 0xF0 to
  0xF5.
\<close>

theorem C3_mode_offsets_witness:
  "(''STBW'', Group \<lparr>literal = Some \<lparr>instr = 0xF0, params = ''Store Location''\<rparr>,
                  direct = Some \<lparr>instr = 0xF1, params = ''Direct''\<rparr>,
                  indirect = Some \<lparr>instr = 0xF2, params = ''[Indirect]''\<rparr>,
                  pc_direct = Some \<lparr>instr = 0xF3, params = ''PC+N''\<rparr>,
                  pc_indirect = Some \<lparr>instr = 0xF4, params = ''[PC+N]''\<rparr>,
                  register = Some \<lparr>instr = 0xF5, params = ''Word Register, Mod.''\<rparr>\<rparr>)
     \<in> set MNEMONICS
   \<and> mode_offsets_ok
        \<lparr>literal = Some \<lparr>instr = 0xF0, params = ''Store Location''\<rparr>,
         direct = Some \<lparr>instr = 0xF1, params = ''Direct''\<rparr>,
         indirect = Some \<lparr>instr = 0xF2, params = ''[Indirect]''\<rparr>,
         pc_direct = Some \<lparr>instr = 0xF3, params = ''PC+N''\<rparr>,
         pc_indirect = Some \<lparr>instr = 0xF4, params = ''[PC+N]''\<rparr>,
         register = Some \<lparr>instr = 0xF5, params = ''Word Register, Mod.''\<rparr>\<rparr>"
proof -
  let ?g = "\<lparr>literal = Some \<lparr>instr = 0xF0, params = ''Store Location''\<rparr>,
         direct = Some \<lparr>instr = 0xF1, params = ''Direct''\<rparr>,
         indirect = Some \<lparr>instr = 0xF2, params = ''[Indirect]''\<rparr>,
         pc_direct = Some \<lparr>instr = 0xF3, params = ''PC+N''\<rparr>,
         pc_indirect = Some \<lparr>instr = 0xF4, params = ''[PC+N]''\<rparr>,
         register = Some \<lparr>instr = 0xF5, params = ''Word Register, Mod.''\<rparr>\<rparr>"
  have m: "(''STBW'', Group ?g) \<in> set MNEMONICS"
    using getitem_STBW by (simp only: getitem_in_items)
  then have "(''STBW'', Group ?g) \<in> set MNEMONICS \<or> (''STBW'', Group ?g) \<in> set MNEMONICS_display"
    by (rule disjI1)
  then have "mode_offsets_ok ?g"
    by (rule C3_mode_offsets)
  with m show ?thesis
    by (rule conjI)
qed

text \<open>
  Claim C4 against the code: on the line \<^verbatim>\<open>BL START\<close> the piece that is popped and looked
  up is the last one, \<^verbatim>\<open>START\<close>, which is not a key; the first piece \<^verbatim>\<open>BL\<close>, a key of
  the catalog, stays in \<^verbatim>\<open>terms\<close> and is never looked up.
\<close>

theorem C4_last_token_looked_up:
  "pop_last (re_split_ws (clean_line (str_of ''BL START''))) = Inr (str_of ''START'', [str_of ''BL''])
   \<and> MNEMONICS_getitem_str (str_of ''START'') = None
   \<and> MNEMONICS_getitem_str (str_of ''BL'') = Some (Op \<lparr>instr = 0x10, params = ''PC+N''\<rparr>)"
proof -
  have "pop_last (re_split_ws (clean_line (str_of ''BL START'')))
          = Inr (str_of ''START'', [str_of ''BL''])"
    by (simp add: text_eval re_split_ws.simps)
  with getitem_START getitem_BL show ?thesis
    by (simp only: getitem_str_of)
qed

text \<open>
  Claim C5, as stated, fails: \<^verbatim>\<open>FOO\<close> is not a key of the catalog, and the program run on
  a file with the one line \<^verbatim>\<open>FOO\<close> ends with exit status 0, an empty error stream, and
  the same local state as for an empty file.
\<close>

theorem C5_counterexample:
  "pop_last (re_split_ws (clean_line (str_of ''FOO\<newline>''))) = Inr (str_of ''FOO'', [])
   \<and> MNEMONICS_getitem_str (str_of ''FOO'') = None
   \<and> assemble_source (str_of ''FOO\<newline>'') = assemble_source (str_of '''')
   \<and> main [''assembler.py'', ''prog.asm'']
        \<lparr>files = [(''prog.asm'', File True ''FOO\<newline>'')], stderr = []\<rparr>
       = (0, \<lparr>files = [(''prog.asm'', File True ''FOO\<newline>'')], stderr = []\<rparr>)"
proof -
  have a: "pop_last (re_split_ws (clean_line (str_of ''FOO\<newline>''))) = Inr (str_of ''FOO'', [])"
    by (simp add: text_eval re_split_ws.simps)
  have b: "MNEMONICS_getitem_str (str_of ''FOO'') = None"
    by (simp only: getitem_str_of getitem_FOO)
  have c: "main [''assembler.py'', ''prog.asm'']
        \<lparr>files = [(''prog.asm'', File True ''FOO\<newline>'')], stderr = []\<rparr>
       = (0, \<lparr>files = [(''prog.asm'', File True ''FOO\<newline>'')], stderr = []\<rparr>)"
    by (simp add: main_def sys_argv_1_def assemble_def open_read_def utf8_decode_def
          assemble_source_Inr)
  from a b c show ?thesis
    by (simp add: assemble_source_Inr)
qed

text \<open>
  Claim C5, amended: a line whose looked-up piece is not a key of the catalog is skipped:
  the round returns normally, the state is unchanged, and the loop goes on with the next
  line.
\<close>

theorem C5_unknown_skipped:
  assumes "clean_line line \<noteq> []"
    and "pop_last (re_split_ws (clean_line line)) = Inr (operand, terms)"
    and "MNEMONICS_getitem_str operand = None"
  shows "process_line line st = Inr st
         \<and> assemble_loop (line # lines) st = assemble_loop lines st"
  by (simp add: process_line_Inr)

theorem C5_unknown_skipped_witness:
  "clean_line (str_of ''FOO\<newline>'') \<noteq> []
   \<and> pop_last (re_split_ws (clean_line (str_of ''FOO\<newline>''))) = Inr (str_of ''FOO'', [])
   \<and> MNEMONICS_getitem_str (str_of ''FOO'') = None
   \<and> process_line (str_of ''FOO\<newline>'') initial_state = Inr initial_state
   \<and> assemble_loop [str_of ''FOO\<newline>'', str_of ''NOP\<newline>''] initial_state
       = assemble_loop [str_of ''NOP\<newline>''] initial_state"
proof -
  have a: "clean_line (str_of ''FOO\<newline>'') \<noteq> []"
    by (simp add: text_eval)
  have b: "pop_last (re_split_ws (clean_line (str_of ''FOO\<newline>''))) = Inr (str_of ''FOO'', [])"
    by (simp add: text_eval re_split_ws.simps)
  have c: "MNEMONICS_getitem_str (str_of ''FOO'') = None"
    by (simp only: getitem_str_of getitem_FOO)
  from C5_unknown_skipped [OF a b c, of initial_state "[str_of ''NOP\<newline>'']"] a b c
  show ?thesis
    by simp
qed

text \<open>
  Claim C6 against the code: the dictionary display binds the key \<^verbatim>\<open>INR\<close> twice, to the
  byte-register opcode 0x20 and to the word-register opcode 0x30. The construction raises
  nothing; the lookup of \<^verbatim>\<open>INR\<close> gives the later binding 0x30, and the opcode 0x20 is
  bound to no key.
\<close>

theorem C6_INR_collision:
  "(''INR'', Op \<lparr>instr = 0x20,
       params = ''Byte Register in high nibble, unsigned constant in low nibble''\<rparr>)
     \<in> set MNEMONICS_display
   \<and> (''INR'', Op \<lparr>instr = 0x30,
       params = ''Word Register in high nibble, unsigned constant in low nibble''\<rparr>)
     \<in> set MNEMONICS_display
   \<and> MNEMONICS_getitem ''INR'' =
       Some (Op \<lparr>instr = 0x30,
          params = ''Word Register in high nibble, unsigned constant in low nibble''\<rparr>)
   \<and> (\<forall>k. MNEMONICS_getitem k \<noteq>
          Some (Op \<lparr>instr = 0x20,
             params = ''Byte Register in high nibble, unsigned constant in low nibble''\<rparr>))"
proof -
  let ?b = "Op \<lparr>instr = 0x20,
       params = ''Byte Register in high nibble, unsigned constant in low nibble''\<rparr>"
  let ?w = "Op \<lparr>instr = 0x30,
       params = ''Word Register in high nibble, unsigned constant in low nibble''\<rparr>"
  have a: "(''INR'', ?b) \<in> set MNEMONICS_display"
    by (simp add: MNEMONICS_display_def)
  have b: "(''INR'', ?w) \<in> set MNEMONICS_display"
    using getitem_INR by (rule getitem_in_display)
  have only: "list_all (\<lambda>(k, v). v = ?b \<longrightarrow> k = ''INR'') MNEMONICS_display"
    by (simp add: MNEMONICS_display_def)
  have c: "MNEMONICS_getitem k \<noteq> Some ?b" for k
  proof
    assume k: "MNEMONICS_getitem k = Some ?b"
    then have "(k, ?b) \<in> set MNEMONICS_display"
      by (rule getitem_in_display)
    with only have "k = ''INR''"
      by (auto simp: list_all_iff)
    with k getitem_INR show False by simp
  qed
  from a b c getitem_INR show ?thesis by blast
qed

text \<open>
  Claim C7, as stated, fails: on a file with the lines \<^verbatim>\<open>NOP\<close> and \<^verbatim>\<open>FOO\<close> (the second is
  not a key of the catalog) the program ends with exit status 0, yet no file has been
  written and nothing has been printed to the error stream.
\<close>

theorem C7_counterexample:
  "MNEMONICS_getitem_str (str_of ''FOO'') = None
   \<and> main [''assembler.py'', ''prog.asm'']
        \<lparr>files = [(''prog.asm'', File True ''NOP\<newline>FOO\<newline>'')], stderr = []\<rparr>
       = (0, \<lparr>files = [(''prog.asm'', File True ''NOP\<newline>FOO\<newline>'')], stderr = []\<rparr>)"
proof -
  have "MNEMONICS_getitem_str (str_of ''FOO'') = None"
    by (simp only: getitem_str_of getitem_FOO)
  then show ?thesis
    by (simp add: main_def sys_argv_1_def assemble_def open_read_def utf8_decode_def
          assemble_source_Inr)
qed

text \<open>
  Claim C7, amended: the program never changes the files. When an argument is given and
  the file that it names is opened and decoded, the exit status is 0 whatever the file
  holds, the files are as before and nothing is printed to the error stream; and with
  exit status 0 nothing has been printed.
\<close>

theorem C7_exit_status:
  "files (snd (main argv w)) = files w
   \<and> (sys_argv_1 argv = Inr file_name \<and> open_read file_name w = Inr content
        \<longrightarrow> main argv w = (0, w))
   \<and> (fst (main argv w) = 0 \<longrightarrow> snd (main argv w) = w)"
  by (auto simp: main_def assemble_def assemble_source_Inr split: sum.splits)

theorem C7_exit_status_witness:
  "sys_argv_1 [''assembler.py'', ''prog.asm''] = Inr ''prog.asm''
   \<and> open_read ''prog.asm'' \<lparr>files = [(''prog.asm'', File True ''NOP\<newline>'')], stderr = []\<rparr>
       = Inr (str_of ''NOP\<newline>'')
   \<and> main [''assembler.py'', ''prog.asm''] \<lparr>files = [(''prog.asm'', File True ''NOP\<newline>'')], stderr = []\<rparr>
       = (0, \<lparr>files = [(''prog.asm'', File True ''NOP\<newline>'')], stderr = []\<rparr>)"
proof -
  let ?w = "\<lparr>files = [(''prog.asm'', File True ''NOP\<newline>'')], stderr = []\<rparr>"
  have a: "sys_argv_1 [''assembler.py'', ''prog.asm''] = Inr ''prog.asm''"
    by (simp add: sys_argv_1_def)
  have b: "open_read ''prog.asm'' ?w = Inr (str_of ''NOP\<newline>'')"
    by (simp add: open_read_def utf8_decode_def str_of_def)
  from C7_exit_status [of "[''assembler.py'', ''prog.asm'']" ?w "''prog.asm''" "str_of ''NOP\<newline>''"]
    a b
  show ?thesis
    by simp
qed

text \<open>
  Claim C8 against the code: on the line \<^verbatim>\<open>NOP ;\<close>, which ends in a bare semicolon, the
  cleaned line is \<^verbatim>\<open>NOP ;\<close>, not \<^verbatim>\<open>NOP\<close>: the semicolon stays. (A semicolon followed by
  at least one character is removed with what follows it, as on \<^verbatim>\<open>NOP ; c\<close>.)
\<close>

theorem C8_bare_semicolon_kept:
  "clean_line (str_of ''NOP ;\<newline>'') = str_of ''NOP ;''
   \<and> clean_line (str_of ''NOP ;'') = str_of ''NOP ;''
   \<and> clean_line (str_of ''NOP ; c\<newline>'') = str_of ''NOP''"
  by (simp add: text_eval)

text \<open>
  Claim C9, as stated, fails: on an existing file whose bytes are \<^verbatim>\<open>NOP\<close>, line feed, 0xFF,
  line feed, which is not UTF-8, \<^verbatim>\<open>assemble\<close> does not return \<^verbatim>\<open>None\<close>: a
  \<^verbatim>\<open>UnicodeDecodeError\<close> leaves it.
\<close>

theorem C9_counterexample:
  "assemble ''prog.asm''
     \<lparr>files = [(''prog.asm'', File True [CHR ''N'', CHR ''O'', CHR ''P'', CHR 0x0A,
                                         CHR 0xFF, CHR 0x0A])],
      stderr = []\<rparr>
   = (Inl UnicodeDecodeError,
      \<lparr>files = [(''prog.asm'', File True [CHR ''N'', CHR ''O'', CHR ''P'', CHR 0x0A,
                                          CHR 0xFF, CHR 0x0A])],
       stderr = []\<rparr>)"
  by (simp add: assemble_def open_read_def utf8_decode_def)

text \<open>
  Claim C9, amended: for every input file that is opened and decoded, \<^verbatim>\<open>assemble\<close>
  returns \<^verbatim>\<open>None\<close> and the output buffer ends as it began, with no byte in it. For every
  path, \<^verbatim>\<open>assemble\<close> leaves the files and the error stream as they were. No line raises:
  every round of the loop returns normally with the state unchanged.
\<close>

theorem C9_assemble_no_output:
  "(open_read file_name w = Inr content \<longrightarrow>
      assemble file_name w = (Inr (), w)
      \<and> assemble_source content = Inr initial_state
      \<and> out_buf initial_state = [(''_default'', [])])
   \<and> snd (assemble file_name w) = w
   \<and> (\<forall>line st. process_line line st = Inr st)"
  by (auto simp: assemble_def assemble_source_Inr process_line_Inr initial_state_def
           split: sum.splits)

theorem C9_assemble_no_output_witness:
  "open_read ''prog.asm''
      \<lparr>files = [(''prog.asm'', File True ''START:\<newline>FOO ; x\<newline>JMP\<newline>NOP'')], stderr = []\<rparr>
     = Inr (str_of ''START:\<newline>FOO ; x\<newline>JMP\<newline>NOP'')
   \<and> assemble ''prog.asm''
        \<lparr>files = [(''prog.asm'', File True ''START:\<newline>FOO ; x\<newline>JMP\<newline>NOP'')], stderr = []\<rparr>
       = (Inr (), \<lparr>files = [(''prog.asm'', File True ''START:\<newline>FOO ; x\<newline>JMP\<newline>NOP'')],
                   stderr = []\<rparr>)
   \<and> assemble_source (str_of ''START:\<newline>FOO ; x\<newline>JMP\<newline>NOP'')
       = Inr \<lparr>out_buf = [(''_default'', [])]\<rparr>"
proof -
  let ?w = "\<lparr>files = [(''prog.asm'', File True ''START:\<newline>FOO ; x\<newline>JMP\<newline>NOP'')], stderr = []\<rparr>"
  have h: "open_read ''prog.asm'' ?w = Inr (str_of ''START:\<newline>FOO ; x\<newline>JMP\<newline>NOP'')"
    by (simp add: open_read_def utf8_decode_def str_of_def)
  from C9_assemble_no_output [of "''prog.asm''" ?w "str_of ''START:\<newline>FOO ; x\<newline>JMP\<newline>NOP''"] h
  show ?thesis
    by (simp add: initial_state_def)
qed

text \<open>
  Claim C10: in the dictionary the key \<^verbatim>\<open>LDBW\<close> is bound to the plain opcode 0xDB. The
  group with the opcodes 0xD0 to 0xD5, written earlier in the display under the same key,
  is bound to no key; and \<^verbatim>\<open>LBWY\<close> is not a key.
\<close>

theorem C10_LDBW_overwritten:
  "MNEMONICS_getitem ''LDBW'' = Some (Op \<lparr>instr = 0xDB, params = ''''\<rparr>)
   \<and> (''LDBW'', Group \<lparr>literal = Some \<lparr>instr = 0xD0, params = ''#Literal''\<rparr>,
                      direct = Some \<lparr>instr = 0xD1, params = ''Direct''\<rparr>,
                      indirect = Some \<lparr>instr = 0xD2, params = ''[Indirect]''\<rparr>,
                      pc_direct = Some \<lparr>instr = 0xD3, params = ''PC+N''\<rparr>,
                      pc_indirect = Some \<lparr>instr = 0xD4, params = ''[PC+N]''\<rparr>,
                      register = Some \<lparr>instr = 0xD5, params = ''Word Register, Mod.''\<rparr>\<rparr>)
       \<in> set MNEMONICS_display
   \<and> (\<forall>k. MNEMONICS_getitem k \<noteq>
          Some (Group \<lparr>literal = Some \<lparr>instr = 0xD0, params = ''#Literal''\<rparr>,
                       direct = Some \<lparr>instr = 0xD1, params = ''Direct''\<rparr>,
                       indirect = Some \<lparr>instr = 0xD2, params = ''[Indirect]''\<rparr>,
                       pc_direct = Some \<lparr>instr = 0xD3, params = ''PC+N''\<rparr>,
                       pc_indirect = Some \<lparr>instr = 0xD4, params = ''[PC+N]''\<rparr>,
                       register = Some \<lparr>instr = 0xD5, params = ''Word Register, Mod.''\<rparr>\<rparr>))
   \<and> MNEMONICS_getitem ''LBWY'' = None"
proof -
  let ?g = "Group \<lparr>literal = Some \<lparr>instr = 0xD0, params = ''#Literal''\<rparr>,
                      direct = Some \<lparr>instr = 0xD1, params = ''Direct''\<rparr>,
                      indirect = Some \<lparr>instr = 0xD2, params = ''[Indirect]''\<rparr>,
                      pc_direct = Some \<lparr>instr = 0xD3, params = ''PC+N''\<rparr>,
                      pc_indirect = Some \<lparr>instr = 0xD4, params = ''[PC+N]''\<rparr>,
                      register = Some \<lparr>instr = 0xD5, params = ''Word Register, Mod.''\<rparr>\<rparr>"
  have a: "MNEMONICS_getitem ''LDBW'' = Some (Op \<lparr>instr = 0xDB, params = ''''\<rparr>)"
    by (rule getitem_LDBW)
  have b: "(''LDBW'', ?g) \<in> set MNEMONICS_display"
    by (simp add: MNEMONICS_display_def)
  have only: "list_all (\<lambda>(k, v). v = ?g \<longrightarrow> k = ''LDBW'') MNEMONICS_display"
    by (simp add: MNEMONICS_display_def)
  have c: "MNEMONICS_getitem k \<noteq> Some ?g" for k
  proof
    assume k: "MNEMONICS_getitem k = Some ?g"
    then have "(k, ?g) \<in> set MNEMONICS_display"
      by (rule getitem_in_display)
    with only have "k = ''LDBW''"
      by (auto simp: list_all_iff)
    with k a show False by simp
  qed
  from a b c getitem_LBWY show ?thesis by blast
qed

end
